theory Spec2Isabelle
  imports Main "HOL-Library.Word"
begin

section \<open>The preprocessor fragment that the patched header is written in\<close>

text \<open>
  The repository is one header, \<^verbatim>\<open>patches/ios/rct-folly/Expected.h\<close>:
  \<^verbatim>\<open>
  // Patch: guard coroutine include when FOLLY_HAS_COROUTINES is undefined or false
  // Source: Pods/Headers/Public/RCT-Folly/folly/Expected.h (modified)

  #if defined(FOLLY_HAS_COROUTINES) && FOLLY_HAS_COROUTINES
  #include <folly/coro/Coroutine.h>
  #endif
  \<close>
  Its meaning is what the C/C++ preprocessor does with these six lines. The model below
  is the part of the preprocessor that they exercise: a table of object-like macros,
  controlling expressions of \<^verbatim>\<open>#if\<close> with \<^verbatim>\<open>defined\<close>, identifiers and the
  short-circuiting logical operators, conditional groups, \<^verbatim>\<open>#include\<close>,
  \<^verbatim>\<open>#define\<close>, \<^verbatim>\<open>#undef\<close>, comments and ordinary text lines.
\<close>

subsection \<open>Macros and controlling expressions\<close>

text \<open>
  The spec's data model gives a macro three states: undefined, defined to zero, defined
  to a nonzero integer constant. A defined macro is therefore represented by the value
  of its replacement list, an integer constant in the preprocessor's arithmetic type
  \<^verbatim>\<open>intmax_t\<close> (64 bits on the toolchains the patch is for). A macro whose
  replacement list is not an integer constant is outside the model, as it is outside
  the spec.
\<close>

type_synonym macro_name = string
type_synonym macro_table = "macro_name \<rightharpoonup> 64 word"

datatype diagnostic =
    UndefinedIdentifier macro_name  \<comment> \<open>an undefined identifier evaluated in \<^verbatim>\<open>#if\<close> (\<^verbatim>\<open>-Wundef\<close>)\<close>
  | ElseWithoutIf
  | EndifWithoutIf
  | UnterminatedConditional
  | HeaderNotFound string

datatype pp_expr =
    Number "64 word"
  | Identifier macro_name
  | Defined macro_name
  | LogicalNot pp_expr
  | LogicalAnd pp_expr pp_expr
  | LogicalOr pp_expr pp_expr

record eval_result =
  val :: "64 word"
  reads :: "macro_name list"      \<comment> \<open>identifiers whose value was tested, in order\<close>
  warns :: "diagnostic list"

text \<open>
  \<open>eval_expr m live e\<close> evaluates a controlling expression. \<open>defined\<close> only asks
  whether the name is in the table. An identifier stands for its macro's value, and for
  \<open>0\<close> when it is no macro; in that case the preprocessor diagnoses the undefined
  identifier. The right operand of \<^verbatim>\<open>&&\<close> is evaluated only when the left one is
  nonzero, that of \<^verbatim>\<open>||\<close> only when the left one is zero: an operand that is not
  evaluated (\<open>live = False\<close>) is still parsed, but its identifiers are not tested and
  it raises no diagnostic.
\<close>

fun eval_expr :: "macro_table \<Rightarrow> bool \<Rightarrow> pp_expr \<Rightarrow> eval_result" where
  "eval_expr m live (Number n) = \<lparr>val = n, reads = [], warns = []\<rparr>"
| "eval_expr m live (Defined x) =
     \<lparr>val = (if m x = None then 0 else 1), reads = [], warns = []\<rparr>"
| "eval_expr m live (Identifier x) =
     (case m x of
        Some v \<Rightarrow> \<lparr>val = v, reads = (if live then [x] else []), warns = []\<rparr>
      | None \<Rightarrow> \<lparr>val = 0, reads = (if live then [x] else []),
                 warns = (if live then [UndefinedIdentifier x] else [])\<rparr>)"
| "eval_expr m live (LogicalNot a) =
     (let ra = eval_expr m live a
      in \<lparr>val = (if val ra = 0 then 1 else 0), reads = reads ra, warns = warns ra\<rparr>)"
| "eval_expr m live (LogicalAnd a b) =
     (let ra = eval_expr m live a;
          rb = eval_expr m (live \<and> val ra \<noteq> 0) b
      in \<lparr>val = (if val ra \<noteq> 0 \<and> val rb \<noteq> 0 then 1 else 0),
          reads = reads ra @ reads rb, warns = warns ra @ warns rb\<rparr>)"
| "eval_expr m live (LogicalOr a b) =
     (let ra = eval_expr m live a;
          rb = eval_expr m (live \<and> val ra = 0) b
      in \<lparr>val = (if val ra = 0 \<and> val rb = 0 then 0 else 1),
          reads = reads ra @ reads rb, warns = warns ra @ warns rb\<rparr>)"

subsection \<open>Lines, conditional groups and the preprocessor state\<close>

datatype include_form = Angle | Quoted

datatype pp_token = Ident string | PPNumber "64 word" | Punct string

datatype pp_line =
    Blank
  | Comment string
  | If pp_expr
  | Else
  | Endif
  | Include include_form string
  | Define macro_name "64 word"
  | Undef macro_name
  | Text "pp_token list"

text \<open>What a file hands on to the translation unit: tokens, and requests to include a header.\<close>

datatype pp_item = Token pp_token | Inclusion include_form string

text \<open>
  The state threaded through a file: the symbol table, what has been handed on so far,
  the diagnostics raised so far, and a log of the identifiers whose value a controlling
  expression has tested (kept to state which operands were evaluated).
\<close>

record pp_state =
  macros :: macro_table
  emitted :: "pp_item list"
  diagnostics :: "diagnostic list"
  evaluated :: "macro_name list"

text \<open>
  One frame per open \<^verbatim>\<open>#if\<close>: whether the group being read is processed, and whether
  an \<^verbatim>\<open>#else\<close> group would be (the conditional was reached live and no group of it
  has been taken yet).
\<close>

record frame =
  group_live :: bool
  else_live :: bool

fun live :: "frame list \<Rightarrow> bool" where
  "live [] = True"
| "live (f # fs) = group_live f"

fun expand_token :: "macro_table \<Rightarrow> pp_token \<Rightarrow> pp_token" where
  "expand_token m (Ident x) = (case m x of Some v \<Rightarrow> PPNumber v | None \<Rightarrow> Ident x)"
| "expand_token m t = t"

text \<open>
  \<open>pp_lines fs ls st\<close> reads the lines \<open>ls\<close> of a file with the open
  conditionals \<open>fs\<close>. Comments and blank lines leave nothing behind. Inside a skipped
  group only the conditional directives are looked at, and the expression of a nested
  \<^verbatim>\<open>#if\<close> is not evaluated. At the end of the file every conditional must be closed.
\<close>

fun pp_lines :: "frame list \<Rightarrow> pp_line list \<Rightarrow> pp_state \<Rightarrow> pp_state" where
  "pp_lines fs [] st =
     (if fs = [] then st
      else st\<lparr>diagnostics := diagnostics st @ [UnterminatedConditional]\<rparr>)"
| "pp_lines fs (Blank # ls) st = pp_lines fs ls st"
| "pp_lines fs (Comment c # ls) st = pp_lines fs ls st"
| "pp_lines fs (If e # ls) st =
     (if live fs then
        (let r = eval_expr (macros st) True e
         in pp_lines (\<lparr>group_live = (val r \<noteq> 0), else_live = (val r = 0)\<rparr> # fs) ls
              (st\<lparr>diagnostics := diagnostics st @ warns r,
                  evaluated := evaluated st @ reads r\<rparr>))
      else pp_lines (\<lparr>group_live = False, else_live = False\<rparr> # fs) ls st)"
| "pp_lines fs (Else # ls) st =
     (case fs of
        [] \<Rightarrow> pp_lines fs ls (st\<lparr>diagnostics := diagnostics st @ [ElseWithoutIf]\<rparr>)
      | f # fs' \<Rightarrow> pp_lines (\<lparr>group_live = else_live f, else_live = False\<rparr> # fs') ls st)"
| "pp_lines fs (Endif # ls) st =
     (case fs of
        [] \<Rightarrow> pp_lines fs ls (st\<lparr>diagnostics := diagnostics st @ [EndifWithoutIf]\<rparr>)
      | f # fs' \<Rightarrow> pp_lines fs' ls st)"
| "pp_lines fs (Include k h # ls) st =
     pp_lines fs ls (if live fs then st\<lparr>emitted := emitted st @ [Inclusion k h]\<rparr> else st)"
| "pp_lines fs (Define x v # ls) st =
     pp_lines fs ls (if live fs then st\<lparr>macros := (macros st)(x \<mapsto> v)\<rparr> else st)"
| "pp_lines fs (Undef x # ls) st =
     pp_lines fs ls (if live fs then st\<lparr>macros := (macros st)(x := None)\<rparr> else st)"
| "pp_lines fs (Text ts # ls) st =
     pp_lines fs ls
       (if live fs
        then st\<lparr>emitted := emitted st @ map (\<lambda>t. Token (expand_token (macros st) t)) ts\<rparr>
        else st)"

definition pp_file :: "pp_line list \<Rightarrow> pp_state \<Rightarrow> pp_state" where
  "pp_file ls st = pp_lines [] ls st"

text \<open>
  The coroutine header is not part of the repository. \<open>translation_unit hdrs items\<close>
  replaces each inclusion by the tokens that the header stands for in \<open>hdrs\<close>; a header
  that cannot be found stops the compilation.
\<close>

fun translation_unit ::
  "(string \<rightharpoonup> pp_token list) \<Rightarrow> pp_item list \<Rightarrow> diagnostic + pp_token list" where
  "translation_unit hdrs [] = Inr []"
| "translation_unit hdrs (Token t # rest) =
     (case translation_unit hdrs rest of Inl d \<Rightarrow> Inl d | Inr ts \<Rightarrow> Inr (t # ts))"
| "translation_unit hdrs (Inclusion k h # rest) =
     (case hdrs h of
        None \<Rightarrow> Inl (HeaderNotFound h)
      | Some body \<Rightarrow>
          (case translation_unit hdrs rest of Inl d \<Rightarrow> Inl d | Inr ts \<Rightarrow> Inr (body @ ts)))"

subsection \<open>The patched header\<close>

definition FOLLY_HAS_COROUTINES :: macro_name where
  "FOLLY_HAS_COROUTINES = ''FOLLY_HAS_COROUTINES''"

definition Expected_h :: "pp_line list" where
  "Expected_h =
     [Comment ''// Patch: guard coroutine include when FOLLY_HAS_COROUTINES is undefined or false'',
      Comment ''// Source: Pods/Headers/Public/RCT-Folly/folly/Expected.h (modified)'',
      Blank,
      If (LogicalAnd (Defined FOLLY_HAS_COROUTINES) (Identifier FOLLY_HAS_COROUTINES)),
      Include Angle ''folly/coro/Coroutine.h'',
      Endif]"

text \<open>
  What the header adds when it is read in the state \<open>st\<close>: the items after those
  already emitted, the diagnostics after those already raised, and the
  identifiers tested after those already tested.
\<close>

definition patch_output :: "pp_state \<Rightarrow> pp_item list" where
  "patch_output st = drop (length (emitted st)) (emitted (pp_file Expected_h st))"

definition patch_diagnostics :: "pp_state \<Rightarrow> diagnostic list" where
  "patch_diagnostics st =
     drop (length (diagnostics st)) (diagnostics (pp_file Expected_h st))"

definition patch_evaluated :: "pp_state \<Rightarrow> macro_name list" where
  "patch_evaluated st = drop (length (evaluated st)) (evaluated (pp_file Expected_h st))"

text \<open>The controlling expression of the header's only conditional.\<close>

definition guard :: pp_expr where
  "guard = LogicalAnd (Defined FOLLY_HAS_COROUTINES) (Identifier FOLLY_HAS_COROUTINES)"

fun is_inclusion :: "pp_item \<Rightarrow> bool" where
  "is_inclusion (Inclusion k h) = True"
| "is_inclusion (Token t) = False"

fun leaves_nothing :: "pp_line \<Rightarrow> bool" where
  "leaves_nothing Blank = True"
| "leaves_nothing (Comment c) = True"
| "leaves_nothing l = False"

text \<open>A state with the given symbol table and nothing emitted, diagnosed or tested yet.\<close>

definition fresh :: "macro_table \<Rightarrow> pp_state" where
  "fresh m = \<lparr>macros = m, emitted = [], diagnostics = [], evaluated = []\<rparr>"

section \<open>Running the header\<close>

text \<open>The three runs of the header, one for each state of the feature macro.\<close>

lemma run_undefined:
  "macros st FOLLY_HAS_COROUTINES = None \<Longrightarrow> pp_file Expected_h st = st"
  by (simp add: pp_file_def Expected_h_def)

lemma run_zero:
  "macros st FOLLY_HAS_COROUTINES = Some 0 \<Longrightarrow>
   pp_file Expected_h st = st\<lparr>evaluated := evaluated st @ [FOLLY_HAS_COROUTINES]\<rparr>"
  by (simp add: pp_file_def Expected_h_def)

lemma run_nonzero:
  "macros st FOLLY_HAS_COROUTINES = Some v \<Longrightarrow> v \<noteq> 0 \<Longrightarrow>
   pp_file Expected_h st =
     st\<lparr>emitted := emitted st @ [Inclusion Angle ''folly/coro/Coroutine.h''],
        evaluated := evaluated st @ [FOLLY_HAS_COROUTINES]\<rparr>"
  by (simp add: pp_file_def Expected_h_def)

lemma patch_output_undefined:
  "macros st FOLLY_HAS_COROUTINES = None \<Longrightarrow> patch_output st = []"
  by (simp add: patch_output_def run_undefined)

lemma patch_output_zero:
  "macros st FOLLY_HAS_COROUTINES = Some 0 \<Longrightarrow> patch_output st = []"
  by (simp add: patch_output_def run_zero)

lemma patch_output_nonzero:
  "macros st FOLLY_HAS_COROUTINES = Some v \<Longrightarrow> v \<noteq> 0 \<Longrightarrow>
   patch_output st = [Inclusion Angle ''folly/coro/Coroutine.h'']"
  by (simp add: patch_output_def run_nonzero)

lemma patch_output_cases:
  "patch_output st =
     (if \<exists>v. macros st FOLLY_HAS_COROUTINES = Some v \<and> v \<noteq> 0
      then [Inclusion Angle ''folly/coro/Coroutine.h''] else [])"
proof (cases "macros st FOLLY_HAS_COROUTINES")
  case None
  then show ?thesis by (simp add: patch_output_undefined)
next
  case (Some v)
  show ?thesis
  proof (cases "v = 0")
    case True
    with Some show ?thesis by (simp add: patch_output_zero)
  next
    case False
    with Some show ?thesis by (simp add: patch_output_nonzero)
  qed
qed

lemma emitted_extends:
  "emitted (pp_file Expected_h st) = emitted st @ patch_output st"
proof (cases "macros st FOLLY_HAS_COROUTINES")
  case None
  then show ?thesis by (simp add: patch_output_undefined run_undefined)
next
  case (Some v)
  show ?thesis
  proof (cases "v = 0")
    case True
    with Some show ?thesis by (simp add: patch_output_zero run_zero)
  next
    case False
    with Some show ?thesis by (simp add: patch_output_nonzero run_nonzero)
  qed
qed

lemma run_frame:
  "pp_file Expected_h st =
     st\<lparr>emitted := emitted (pp_file Expected_h st),
        evaluated := evaluated (pp_file Expected_h st)\<rparr>"
proof (cases "macros st FOLLY_HAS_COROUTINES")
  case None
  then show ?thesis by (simp add: run_undefined)
next
  case (Some v)
  show ?thesis
  proof (cases "v = 0")
    case True
    with Some show ?thesis by (simp add: run_zero)
  next
    case False
    with Some show ?thesis by (simp add: run_nonzero)
  qed
qed

lemma macros_unchanged: "macros (pp_file Expected_h st) = macros st"
  by (subst run_frame) simp

lemma diagnostics_unchanged: "diagnostics (pp_file Expected_h st) = diagnostics st"
  by (subst run_frame) simp

lemma patch_diagnostics_nil: "patch_diagnostics st = []"
  by (simp add: patch_diagnostics_def diagnostics_unchanged)

lemma patch_evaluated_cases:
  "patch_evaluated st =
     (if macros st FOLLY_HAS_COROUTINES = None then [] else [FOLLY_HAS_COROUTINES])"
proof (cases "macros st FOLLY_HAS_COROUTINES")
  case None
  then show ?thesis by (simp add: patch_evaluated_def run_undefined)
next
  case (Some v)
  show ?thesis
  proof (cases "v = 0")
    case True
    with Some show ?thesis by (simp add: patch_evaluated_def run_zero)
  next
    case False
    with Some show ?thesis by (simp add: patch_evaluated_def run_nonzero)
  qed
qed

text \<open>
  The model can change the symbol table and raise diagnostics: a file with a
  \<^verbatim>\<open>#define\<close> changes the table, and the value test without its \<^verbatim>\<open>defined\<close>
  guard is diagnosed on an undefined macro.
\<close>

lemma define_changes_table:
  "macros (pp_file [Define ''X'' 1] (fresh Map.empty)) ''X'' = Some 1"
  by (simp add: pp_file_def fresh_def)

lemma unguarded_test_is_diagnosed:
  "diagnostics (pp_file [If (Identifier ''X''), Endif] (fresh Map.empty)) =
     [UndefinedIdentifier ''X'']"
  by (simp add: pp_file_def fresh_def)

lemma unclosed_conditional_is_diagnosed:
  "diagnostics (pp_file [If (Number 1)] (fresh Map.empty)) = [UnterminatedConditional]"
  by (simp add: pp_file_def fresh_def)

section \<open>The claims\<close>

text \<open>
  C1. For every state of the feature macro, the coroutine header is textually included
  if and only if the macro is defined and its value is nonzero; in every other state
  the header adds nothing at all. What was emitted before the header is kept.
\<close>

theorem include_iff_defined_and_nonzero:
  "(Inclusion Angle ''folly/coro/Coroutine.h'' \<in> set (patch_output st)
      \<longleftrightarrow> (\<exists>v. macros st FOLLY_HAS_COROUTINES = Some v \<and> v \<noteq> 0))
   \<and> ((\<nexists>v. macros st FOLLY_HAS_COROUTINES = Some v \<and> v \<noteq> 0) \<longrightarrow> patch_output st = [])
   \<and> emitted (pp_file Expected_h st) = emitted st @ patch_output st"
  by (simp add: patch_output_cases emitted_extends)

theorem include_iff_defined_and_nonzero_witness:
  "Inclusion Angle ''folly/coro/Coroutine.h''
     \<in> set (patch_output (fresh [FOLLY_HAS_COROUTINES \<mapsto> 1]))
   \<and> Inclusion Angle ''folly/coro/Coroutine.h''
     \<notin> set (patch_output (fresh [FOLLY_HAS_COROUTINES \<mapsto> 0]))
   \<and> patch_output (fresh [FOLLY_HAS_COROUTINES \<mapsto> 0]) = []
   \<and> patch_output (fresh Map.empty) = []"
  using include_iff_defined_and_nonzero [of "fresh [FOLLY_HAS_COROUTINES \<mapsto> 1]"]
    include_iff_defined_and_nonzero [of "fresh [FOLLY_HAS_COROUTINES \<mapsto> 0]"]
    include_iff_defined_and_nonzero [of "fresh Map.empty"]
  by (simp add: fresh_def)

text \<open>
  C2. When the feature macro is undefined, the header raises no diagnostic and omits the
  include: the controlling expression is \<open>0\<close> without any identifier having been
  tested, because \<^verbatim>\<open>defined(FOLLY_HAS_COROUTINES)\<close> is \<open>0\<close> and the right operand
  of \<^verbatim>\<open>&&\<close> is then not evaluated. The value test on its own would be diagnosed in
  the same state. The state is left as it was, and the translation unit needs no
  coroutine header.
\<close>

theorem undefined_macro_short_circuits:
  "macros st FOLLY_HAS_COROUTINES = None \<Longrightarrow>
   patch_diagnostics st = []
   \<and> patch_output st = []
   \<and> FOLLY_HAS_COROUTINES \<notin> set (patch_evaluated st)
   \<and> eval_expr (macros st) True guard = \<lparr>val = 0, reads = [], warns = []\<rparr>
   \<and> warns (eval_expr (macros st) True (Identifier FOLLY_HAS_COROUTINES))
       = [UndefinedIdentifier FOLLY_HAS_COROUTINES]
   \<and> pp_file Expected_h st = st
   \<and> translation_unit Map.empty (patch_output st) = Inr []"
  by (simp add: patch_diagnostics_nil patch_output_undefined patch_evaluated_cases
      guard_def run_undefined)

theorem undefined_macro_short_circuits_witness:
  "patch_diagnostics (fresh [''OTHER'' \<mapsto> 1]) = []
   \<and> patch_output (fresh [''OTHER'' \<mapsto> 1]) = []
   \<and> FOLLY_HAS_COROUTINES \<notin> set (patch_evaluated (fresh [''OTHER'' \<mapsto> 1]))
   \<and> pp_file Expected_h (fresh [''OTHER'' \<mapsto> 1]) = fresh [''OTHER'' \<mapsto> 1]"
proof -
  have h: "macros (fresh [''OTHER'' \<mapsto> 1]) FOLLY_HAS_COROUTINES = None"
    by (simp add: fresh_def FOLLY_HAS_COROUTINES_def)
  show ?thesis
    using undefined_macro_short_circuits [OF h] by simp
qed

text \<open>
  C3. The guard collapses the three states to two: whatever else the state holds, the
  header adds the same with the macro defined to \<open>0\<close> as with the macro undefined,
  namely nothing; and it adds something only when the macro is defined and nonzero.
\<close>

theorem tri_state_collapses_to_binary:
  "patch_output (st\<lparr>macros := (macros st)(FOLLY_HAS_COROUTINES \<mapsto> 0)\<rparr>)
     = patch_output (st\<lparr>macros := (macros st)(FOLLY_HAS_COROUTINES := None)\<rparr>)
   \<and> patch_output (st\<lparr>macros := (macros st)(FOLLY_HAS_COROUTINES := None)\<rparr>) = []
   \<and> (patch_output st \<noteq> [] \<longleftrightarrow> (\<exists>v. macros st FOLLY_HAS_COROUTINES = Some v \<and> v \<noteq> 0))"
  by (simp add: patch_output_cases)

theorem tri_state_collapses_to_binary_witness:
  "patch_output (fresh [FOLLY_HAS_COROUTINES \<mapsto> 0]) = patch_output (fresh Map.empty)
   \<and> patch_output (fresh Map.empty) = []
   \<and> patch_output (fresh [FOLLY_HAS_COROUTINES \<mapsto> 1]) \<noteq> []"
  using tri_state_collapses_to_binary [of "fresh Map.empty"]
    tri_state_collapses_to_binary [of "fresh [FOLLY_HAS_COROUTINES \<mapsto> 1]"]
  by (simp add: fresh_def)

text \<open>
  C4. For every nonzero value of the feature macro the header adds the inclusion of the
  coroutine header, and with it everything the coroutine header stands for becomes part
  of the translation unit.
\<close>

theorem nonzero_includes_header:
  "macros st FOLLY_HAS_COROUTINES = Some v \<Longrightarrow> v \<noteq> 0 \<Longrightarrow>
   hdrs ''folly/coro/Coroutine.h'' = Some body \<Longrightarrow>
   patch_output st = [Inclusion Angle ''folly/coro/Coroutine.h'']
   \<and> translation_unit hdrs (patch_output st) = Inr body"
  by (simp add: patch_output_nonzero)

theorem nonzero_includes_header_witness:
  "patch_output (fresh [FOLLY_HAS_COROUTINES \<mapsto> 1])
     = [Inclusion Angle ''folly/coro/Coroutine.h'']
   \<and> translation_unit [''folly/coro/Coroutine.h'' \<mapsto> [Ident ''coroutine_handle'']]
       (patch_output (fresh [FOLLY_HAS_COROUTINES \<mapsto> 1]))
     = Inr [Ident ''coroutine_handle'']
   \<and> patch_output (fresh [FOLLY_HAS_COROUTINES \<mapsto> 202002])
     = [Inclusion Angle ''folly/coro/Coroutine.h'']"
proof -
  have m1: "macros (fresh [FOLLY_HAS_COROUTINES \<mapsto> 1]) FOLLY_HAS_COROUTINES = Some 1"
    by (simp add: fresh_def)
  have m2: "macros (fresh [FOLLY_HAS_COROUTINES \<mapsto> 202002]) FOLLY_HAS_COROUTINES
              = Some 202002"
    by (simp add: fresh_def)
  have n1: "(1 :: 64 word) \<noteq> 0" by simp
  have n2: "(202002 :: 64 word) \<noteq> 0" by simp
  have h: "[''folly/coro/Coroutine.h'' \<mapsto> [Ident ''coroutine_handle'']]
             ''folly/coro/Coroutine.h'' = Some [Ident ''coroutine_handle'']"
    by simp
  show ?thesis
    using
      nonzero_includes_header
        [where hdrs = "[''folly/coro/Coroutine.h'' \<mapsto> [Ident ''coroutine_handle'']]",
         OF m1 n1 h]
      nonzero_includes_header
        [where hdrs = "[''folly/coro/Coroutine.h'' \<mapsto> [Ident ''coroutine_handle'']]",
         OF m2 n2 h]
    by simp
qed

text \<open>
  C5. For every state, reading the header leaves the symbol table as it was: the header
  defines no macro and undefines none. Nothing of the state changes but what has been
  emitted (the include, or nothing) and the log of tested identifiers.
\<close>

theorem symbol_table_unchanged:
  "macros (pp_file Expected_h st) = macros st
   \<and> dom (macros (pp_file Expected_h st)) = dom (macros st)
   \<and> diagnostics (pp_file Expected_h st) = diagnostics st
   \<and> pp_file Expected_h st =
       st\<lparr>emitted := emitted st @ patch_output st,
          evaluated := evaluated st @ patch_evaluated st\<rparr>"
proof -
  have "evaluated (pp_file Expected_h st) = evaluated st @ patch_evaluated st"
  proof (cases "macros st FOLLY_HAS_COROUTINES")
    case None
    then show ?thesis by (simp add: patch_evaluated_def run_undefined)
  next
    case (Some v)
    show ?thesis
    proof (cases "v = 0")
      case True
      with Some show ?thesis by (simp add: patch_evaluated_def run_zero)
    next
      case False
      with Some show ?thesis by (simp add: patch_evaluated_def run_nonzero)
    qed
  qed
  with run_frame [of st] emitted_extends [of st]
  have "pp_file Expected_h st =
          st\<lparr>emitted := emitted st @ patch_output st,
             evaluated := evaluated st @ patch_evaluated st\<rparr>"
    by simp
  then show ?thesis
    by (simp add: macros_unchanged diagnostics_unchanged)
qed

theorem symbol_table_unchanged_witness:
  "macros (pp_file Expected_h (fresh [FOLLY_HAS_COROUTINES \<mapsto> 1, ''OTHER'' \<mapsto> 7]))
     = [FOLLY_HAS_COROUTINES \<mapsto> 1, ''OTHER'' \<mapsto> 7]"
  using symbol_table_unchanged [of "fresh [FOLLY_HAS_COROUTINES \<mapsto> 1, ''OTHER'' \<mapsto> 7]"]
  by (simp add: fresh_def)

text \<open>
  C6. For every state, the header adds either nothing or exactly one inclusion of the
  coroutine header, never more than one.
\<close>

theorem at_most_one_inclusion:
  "(patch_output st = [] \<or> patch_output st = [Inclusion Angle ''folly/coro/Coroutine.h''])
   \<and> length (filter is_inclusion (patch_output st)) \<le> 1
   \<and> count_list (patch_output st) (Inclusion Angle ''folly/coro/Coroutine.h'') \<le> 1"
  by (simp add: patch_output_cases)

theorem at_most_one_inclusion_witness:
  "length (filter is_inclusion (patch_output (fresh [FOLLY_HAS_COROUTINES \<mapsto> 1]))) \<le> 1
   \<and> length (filter is_inclusion (patch_output (fresh Map.empty))) \<le> 1"
  using at_most_one_inclusion [of "fresh [FOLLY_HAS_COROUTINES \<mapsto> 1]"]
    at_most_one_inclusion [of "fresh Map.empty"]
  by simp

text \<open>
  C7. Under each of the three configurations of the feature macro (undefined, defined
  to \<open>0\<close>, defined to \<open>1\<close>), and whatever the rest of the state, the header raises
  no diagnostic: the diagnostics after it are those before it.
\<close>

theorem no_diagnostic_in_three_configurations:
  "patch_diagnostics (st\<lparr>macros := (macros st)(FOLLY_HAS_COROUTINES := None)\<rparr>) = []
   \<and> patch_diagnostics (st\<lparr>macros := (macros st)(FOLLY_HAS_COROUTINES \<mapsto> 0)\<rparr>) = []
   \<and> patch_diagnostics (st\<lparr>macros := (macros st)(FOLLY_HAS_COROUTINES \<mapsto> 1)\<rparr>) = []
   \<and> diagnostics
        (pp_file Expected_h (st\<lparr>macros := (macros st)(FOLLY_HAS_COROUTINES := None)\<rparr>))
       = diagnostics st
   \<and> diagnostics
        (pp_file Expected_h (st\<lparr>macros := (macros st)(FOLLY_HAS_COROUTINES \<mapsto> 0)\<rparr>))
       = diagnostics st
   \<and> diagnostics
        (pp_file Expected_h (st\<lparr>macros := (macros st)(FOLLY_HAS_COROUTINES \<mapsto> 1)\<rparr>))
       = diagnostics st"
  by (simp add: patch_diagnostics_nil diagnostics_unchanged)

theorem no_diagnostic_in_three_configurations_witness:
  "patch_diagnostics (fresh Map.empty) = []
   \<and> patch_diagnostics (fresh [FOLLY_HAS_COROUTINES \<mapsto> 0]) = []
   \<and> patch_diagnostics (fresh [FOLLY_HAS_COROUTINES \<mapsto> 1]) = []"
  using no_diagnostic_in_three_configurations [of "fresh Map.empty"]
  by (simp add: fresh_def)

text \<open>
  C8. What the header adds depends on the state only through the feature macro: two
  states that agree on whether \<^verbatim>\<open>FOLLY_HAS_COROUTINES\<close> is defined and on its value
  get the same items and the same diagnostics from the header, whatever their other
  macros and whatever was emitted, diagnosed and tested before.
\<close>

theorem output_depends_only_on_feature_macro:
  "macros s FOLLY_HAS_COROUTINES = macros t FOLLY_HAS_COROUTINES \<Longrightarrow>
   patch_output s = patch_output t
   \<and> patch_diagnostics s = patch_diagnostics t
   \<and> patch_evaluated s = patch_evaluated t"
  by (simp add: patch_output_cases patch_diagnostics_nil patch_evaluated_cases)

theorem output_depends_only_on_feature_macro_witness:
  "patch_output (fresh [FOLLY_HAS_COROUTINES \<mapsto> 1, ''FOLLY_MOBILE'' \<mapsto> 1])
   = patch_output
       \<lparr>macros = [''NDEBUG'' \<mapsto> 0, FOLLY_HAS_COROUTINES \<mapsto> 1],
        emitted = [Token (Punct '';'')],
        diagnostics = [EndifWithoutIf],
        evaluated = [''NDEBUG'']\<rparr>"
proof -
  have h: "macros (fresh [FOLLY_HAS_COROUTINES \<mapsto> 1, ''FOLLY_MOBILE'' \<mapsto> 1])
             FOLLY_HAS_COROUTINES
           = macros
               \<lparr>macros = [''NDEBUG'' \<mapsto> 0, FOLLY_HAS_COROUTINES \<mapsto> 1],
                emitted = [Token (Punct '';'')],
                diagnostics = [EndifWithoutIf],
                evaluated = [''NDEBUG'']\<rparr>
               FOLLY_HAS_COROUTINES"
    by (simp add: fresh_def FOLLY_HAS_COROUTINES_def)
  show ?thesis
    using output_depends_only_on_feature_macro [OF h] by simp
qed

text \<open>
  C9. Whenever the header emits an inclusion, in whatever states, it is the inclusion of
  the one path \<^verbatim>\<open>folly/coro/Coroutine.h\<close>, written in angle brackets: a relative path
  (it does not start at the root) into the directory \<^verbatim>\<open>folly/coro/\<close>.
\<close>

theorem include_path_is_fixed:
  "Inclusion k h \<in> set (patch_output s) \<Longrightarrow> Inclusion k' h' \<in> set (patch_output t) \<Longrightarrow>
   h = ''folly/coro/Coroutine.h'' \<and> k = Angle \<and> h' = h \<and> k' = k
   \<and> take 11 h = ''folly/coro/'' \<and> hd h \<noteq> CHR ''/''"
  by (simp add: patch_output_cases split: if_splits)

theorem include_path_is_fixed_witness:
  "(Inclusion Angle ''folly/coro/Coroutine.h''
      \<in> set (patch_output (fresh [FOLLY_HAS_COROUTINES \<mapsto> 1]))
    \<and> Inclusion Angle ''folly/coro/Coroutine.h''
      \<in> set (patch_output (fresh [''NDEBUG'' \<mapsto> 0, FOLLY_HAS_COROUTINES \<mapsto> 2])))
   \<and> (''folly/coro/Coroutine.h'' = ''folly/coro/Coroutine.h'' \<and> Angle = Angle
      \<and> ''folly/coro/Coroutine.h'' = ''folly/coro/Coroutine.h'' \<and> Angle = Angle
      \<and> take 11 ''folly/coro/Coroutine.h'' = ''folly/coro/''
      \<and> hd ''folly/coro/Coroutine.h'' \<noteq> CHR ''/'')"
proof -
  have s: "Inclusion Angle ''folly/coro/Coroutine.h''
             \<in> set (patch_output (fresh [FOLLY_HAS_COROUTINES \<mapsto> 1]))"
    by (simp add: patch_output_cases fresh_def)
  have t: "Inclusion Angle ''folly/coro/Coroutine.h''
             \<in> set (patch_output (fresh [''NDEBUG'' \<mapsto> 0, FOLLY_HAS_COROUTINES \<mapsto> 2]))"
    by (simp add: patch_output_cases fresh_def)
  from s t have st: "Inclusion Angle ''folly/coro/Coroutine.h''
             \<in> set (patch_output (fresh [FOLLY_HAS_COROUTINES \<mapsto> 1]))
    \<and> Inclusion Angle ''folly/coro/Coroutine.h''
      \<in> set (patch_output (fresh [''NDEBUG'' \<mapsto> 0, FOLLY_HAS_COROUTINES \<mapsto> 2]))"
    by (rule conjI)
  from st include_path_is_fixed [OF s t] show ?thesis
    by (rule conjI)
qed

text \<open>
  C10. When the guard is off (macro undefined or defined to \<open>0\<close>) the header hands
  nothing on to the translation unit, whichever headers exist. Apart from comments and
  a blank line, which leave nothing behind, the file is the conditional block, and that
  block is skipped.
\<close>

theorem guard_off_contributes_nothing:
  "macros st FOLLY_HAS_COROUTINES = None \<or> macros st FOLLY_HAS_COROUTINES = Some 0 \<Longrightarrow>
   patch_output st = []
   \<and> emitted (pp_file Expected_h st) = emitted st
   \<and> translation_unit hdrs (patch_output st) = Inr []
   \<and> val (eval_expr (macros st) True guard) = 0
   \<and> filter (\<lambda>l. \<not> leaves_nothing l) Expected_h
       = [If guard, Include Angle ''folly/coro/Coroutine.h'', Endif]
   \<and> pp_lines [\<lparr>group_live = False, else_live = True\<rparr>]
        [Include Angle ''folly/coro/Coroutine.h'', Endif] st = st"
proof -
  assume off: "macros st FOLLY_HAS_COROUTINES = None \<or> macros st FOLLY_HAS_COROUTINES = Some 0"
  then have out: "patch_output st = []"
    by (auto simp add: patch_output_undefined patch_output_zero)
  from off have cond: "val (eval_expr (macros st) True guard) = 0"
    by (auto simp add: guard_def)
  have block: "filter (\<lambda>l. \<not> leaves_nothing l) Expected_h
                 = [If guard, Include Angle ''folly/coro/Coroutine.h'', Endif]"
    by (simp add: Expected_h_def guard_def)
  have skipped: "pp_lines [\<lparr>group_live = False, else_live = True\<rparr>]
                   [Include Angle ''folly/coro/Coroutine.h'', Endif] st = st"
    by simp
  from out cond block skipped show ?thesis
    by (simp add: emitted_extends)
qed

theorem guard_off_contributes_nothing_witness:
  "patch_output (fresh Map.empty) = []
   \<and> patch_output (fresh [FOLLY_HAS_COROUTINES \<mapsto> 0]) = []
   \<and> translation_unit Map.empty (patch_output (fresh [FOLLY_HAS_COROUTINES \<mapsto> 0])) = Inr []"
proof -
  have u: "macros (fresh Map.empty) FOLLY_HAS_COROUTINES = None
           \<or> macros (fresh Map.empty) FOLLY_HAS_COROUTINES = Some 0"
    by (simp add: fresh_def)
  have z: "macros (fresh [FOLLY_HAS_COROUTINES \<mapsto> 0]) FOLLY_HAS_COROUTINES = None
           \<or> macros (fresh [FOLLY_HAS_COROUTINES \<mapsto> 0]) FOLLY_HAS_COROUTINES = Some 0"
    by (simp add: fresh_def)
  show ?thesis
    using guard_off_contributes_nothing [OF u]
      guard_off_contributes_nothing [where hdrs = Map.empty, OF z]
    by simp
qed

end
